theory Spec2Isabelle
  imports Complex_Main
begin

section \<open>Live-location dashboard: enhanced\_tracking.js\<close>

text \<open>
  The file holds two classes. \<^verbatim>\<open>EnhancedTrackingFeatures\<close> keeps the alert list and the
  route trails of the dashboard; \<^verbatim>\<open>LocationTracker\<close> acquires positions and owns the
  tracking session. Both are embedded below with explicit state passing: every method takes
  the fields it reads and returns the fields it writes, together with the calls it makes to
  its collaborators (the map SDK, the geolocation provider, the server, the toast message).
  What the collaborators answer is an argument of the model. Numbers are reals: the source
  only compares them, and \<^verbatim>\<open>NaN\<close> is outside the model. DOM writes that only paint text
  (\<^verbatim>\<open>updateAlertsDisplay\<close>, the \<^verbatim>\<open>test-result\<close> element, console logging) are left out.
\<close>

subsection \<open>JavaScript values\<close>

text \<open>\<^verbatim>\<open>a || b\<close> on an optional string: the empty string and a missing value are falsy.\<close>

definition or_else :: "string option \<Rightarrow> string \<Rightarrow> string" where
  "or_else s d = (case s of None \<Rightarrow> d | Some v \<Rightarrow> if v = [] then d else v)"

text \<open>Truthiness of an optional number (\<^verbatim>\<open>0\<close> is falsy) and of an optional string.\<close>

definition truthy_num :: "real option \<Rightarrow> bool" where
  "truthy_num x = (case x of None \<Rightarrow> False | Some v \<Rightarrow> v \<noteq> 0)"

definition truthy_nat :: "nat option \<Rightarrow> bool" where
  "truthy_nat x = (case x of None \<Rightarrow> False | Some v \<Rightarrow> v \<noteq> 0)"

definition truthy_str :: "string option \<Rightarrow> bool" where
  "truthy_str x = (case x of None \<Rightarrow> False | Some v \<Rightarrow> v \<noteq> [])"

text \<open>Decimal rendering of an integer, and \<^verbatim>\<open>Math.round\<close> (round half up).\<close>

fun show_nat :: "nat \<Rightarrow> string" where
  "show_nat n =
     (if n < 10 then [char_of (48 + n)] else show_nat (n div 10) @ [char_of (48 + n mod 10)])"

definition show_int :: "int \<Rightarrow> string" where
  "show_int i = (if i < 0 then CHR ''-'' # show_nat (nat (- i)) else show_nat (nat i))"

definition math_round :: "real \<Rightarrow> int" where
  "math_round x = \<lfloor>x + 1 / 2\<rfloor>"

subsection \<open>Data\<close>

text \<open>
  One entry of the dashboard feed. \<^verbatim>\<open>id\<close> is used only inside template strings and as a
  property key, so it is the string it converts to. A coordinate or accuracy that the feed
  leaves out (or sends as \<^verbatim>\<open>null\<close>) is \<open>None\<close>.
\<close>

record auditor =
  auditor_id :: string
  username :: string
  status_class :: string
  auditor_accuracy :: "real option"
  lat :: "real option"
  lng :: "real option"
  last_update :: string

record alert =
  alert_id :: string
  alert_type :: string
  title :: string
  alert_message :: string
  alert_timestamp :: nat

record trail_point =
  point_lat :: real
  point_lng :: real
  point_timestamp :: string

type_synonym path = "(real \<times> real) list"

text \<open>Calls into the map SDK: \<^verbatim>\<open>routes[id].setMap(null)\<close> and a new polyline put on the map.\<close>

datatype map_call = SetMapNull string | NewPolyline string path

record trails =
  previousPositions :: "string \<rightharpoonup> trail_point list"
  routes :: "string \<rightharpoonup> path"

text \<open>A geolocation fix (\<^verbatim>\<open>position.coords\<close> flattened) and a \<^verbatim>\<open>PositionError\<close>.\<close>

record geo_position =
  latitude :: real
  longitude :: real
  accuracy :: real
  timestamp :: nat

record position_error =
  code :: nat
  message :: string

text \<open>What one \<^verbatim>\<open>getCurrentPosition\<close> request ends with: the success or the error callback.\<close>

datatype geo_outcome = OnSuccess geo_position | OnError position_error

text \<open>How the promise of an acquisition ends; \<open>Pending\<close> when no callback settles it.\<close>

datatype settlement = Resolved geo_position | Rejected position_error | Pending

text \<open>
  The closure variables of \<^verbatim>\<open>getCurrentLocationUltraAccuracy\<close>, with two counters the
  source does not keep: the requests answered and the \<^verbatim>\<open>setTimeout\<close> delays started.
\<close>

record ultra =
  bestPosition :: "geo_position option"
  attempts :: nat
  requests :: nat
  delays :: nat

text \<open>
  The JSON body of a server answer, and a \<^verbatim>\<open>fetch\<close> that either throws (with the
  message of the error) or delivers the body.
\<close>

record response =
  success :: bool
  session_id :: "string option"
  error :: "string option"

datatype fetched = Threw string | Replied response

record history_entry =
  h_lat :: real
  h_lng :: real
  h_accuracy :: real
  h_timestamp :: nat

text \<open>The fields of \<^verbatim>\<open>LocationTracker\<close> (the unused \<^verbatim>\<open>updateInterval\<close> apart).\<close>

record tracker =
  watchId :: "nat option"
  isTracking :: bool
  sessionId :: "string option"
  lastUpdate :: "nat option"
  locationHistory :: "history_entry list"

text \<open>What the tracker does to the outside, in the order it does it.\<close>

datatype effect =
    ClearWatch nat
  | WatchPosition nat
  | PostStartTracking
  | PostStopTracking "string option"
  | PostLocationUpdate real real real "string option"
  | ShowError string
  | ShowSuccess string
  | UpdateTrackingUI bool
  | UpdateLocationDisplay geo_position

subsection \<open>EnhancedTrackingFeatures: alerts\<close>

definition addAlert :: "alert \<Rightarrow> alert list \<Rightarrow> alert list" where
  "addAlert a alerts = alerts @ [a]"

definition hasAlert :: "string \<Rightarrow> alert list \<Rightarrow> bool" where
  "hasAlert alertId alerts = list_ex (\<lambda>a. alert_id a = alertId) alerts"

definition removeAlert :: "string \<Rightarrow> alert list \<Rightarrow> alert list" where
  "removeAlert alertId alerts = filter (\<lambda>a. alert_id a \<noteq> alertId) alerts"

text \<open>The two kinds of alert and the id built for each: \<^verbatim>\<open>offline_<id>\<close>, \<^verbatim>\<open>accuracy_<id>\<close>.\<close>

datatype alert_kind = Offline | LowAccuracy

fun alertKey :: "alert_kind \<Rightarrow> string \<Rightarrow> string" where
  "alertKey Offline entity = ''offline_'' @ entity"
| "alertKey LowAccuracy entity = ''accuracy_'' @ entity"

definition over500 :: "real option \<Rightarrow> bool" where
  "over500 x = (case x of None \<Rightarrow> False | Some v \<Rightarrow> v > 500)"

definition offlineAlert :: "nat \<Rightarrow> auditor \<Rightarrow> alert" where
  "offlineAlert now a =
     \<lparr>alert_id = alertKey Offline (auditor_id a), alert_type = ''warning'',
      title = ''Auditor Offline'',
      alert_message = username a @ '' has been offline for over 15 minutes'',
      alert_timestamp = now\<rparr>"

text \<open>The two bytes before the number are the plus-minus sign in UTF-8.\<close>

definition accuracyAlert :: "nat \<Rightarrow> auditor \<Rightarrow> alert" where
  "accuracyAlert now a =
     \<lparr>alert_id = alertKey LowAccuracy (auditor_id a), alert_type = ''warning'',
      title = ''Low Location Accuracy'',
      alert_message = username a @ '' has low GPS accuracy ('' @ [char_of (194::nat), char_of (177::nat)]
        @ show_int (math_round (case auditor_accuracy a of Some v \<Rightarrow> v | None \<Rightarrow> 0)) @ ''m)'',
      alert_timestamp = now\<rparr>"

text \<open>The body of the \<^verbatim>\<open>forEach\<close> in \<^verbatim>\<open>checkForAlerts\<close>, for one auditor.\<close>

definition checkAuditor :: "nat \<Rightarrow> auditor \<Rightarrow> alert list \<Rightarrow> alert list" where
  "checkAuditor now a alerts =
     (let alerts1 =
            (if status_class a = ''offline'' \<and> \<not> hasAlert (alertKey Offline (auditor_id a)) alerts
             then addAlert (offlineAlert now a) alerts else alerts);
          alerts2 =
            (if over500 (auditor_accuracy a) \<and> \<not> hasAlert (alertKey LowAccuracy (auditor_id a)) alerts1
             then addAlert (accuracyAlert now a) alerts1 else alerts1)
      in if status_class a = ''online''
         then removeAlert (alertKey LowAccuracy (auditor_id a))
                (removeAlert (alertKey Offline (auditor_id a)) alerts2)
         else alerts2)"

definition checkForAlerts :: "nat \<Rightarrow> auditor list \<Rightarrow> alert list \<Rightarrow> alert list" where
  "checkForAlerts now auditors alerts = foldl (\<lambda>als a. checkAuditor now a als) alerts auditors"

text \<open>A run of calls, each with its clock reading and its snapshot, from the constructor's empty list.\<close>

definition alertsAfter :: "(nat \<times> auditor list) list \<Rightarrow> alert list" where
  "alertsAfter calls = foldl (\<lambda>als (now, auditors). checkForAlerts now auditors als) [] calls"

subsection \<open>EnhancedTrackingFeatures: route trails\<close>

text \<open>
  \<^verbatim>\<open>drawTrail\<close>: nothing below two points; otherwise the previous polyline of the auditor,
  if there is one, is taken off the map and a new one over all the positions is put on it.
\<close>

definition drawTrail :: "string \<Rightarrow> trail_point list \<Rightarrow> trails \<Rightarrow> trails \<times> map_call list" where
  "drawTrail auditorId positions st =
     (if length positions < 2 then (st, [])
      else
        let trail = map (\<lambda>pos. (point_lat pos, point_lng pos)) positions
        in (st\<lparr>routes := (routes st)(auditorId \<mapsto> trail)\<rparr>,
            (case routes st auditorId of None \<Rightarrow> [] | Some old \<Rightarrow> [SetMapNull auditorId])
              @ [NewPolyline auditorId trail]))"

text \<open>
  The body of the \<^verbatim>\<open>forEach\<close> in \<^verbatim>\<open>updateRouteTrails\<close>. \<^verbatim>\<open>positions\<close> is the array
  stored under the auditor's key, so \<^verbatim>\<open>push\<close> and \<^verbatim>\<open>shift\<close> change the stored trail.
\<close>

definition trailStep :: "auditor \<Rightarrow> trails \<Rightarrow> trails \<times> map_call list" where
  "trailStep a st =
     (if truthy_num (lat a) \<and> truthy_num (lng a) then
        (case (lat a, lng a) of
           (Some la, Some lo) \<Rightarrow>
             let auditorId = auditor_id a;
                 st1 = (case previousPositions st auditorId of
                          None \<Rightarrow> st\<lparr>previousPositions := (previousPositions st)(auditorId \<mapsto> [])\<rparr>
                        | Some ps \<Rightarrow> st);
                 newPosition = \<lparr>point_lat = la, point_lng = lo, point_timestamp = last_update a\<rparr>;
                 positions = (case previousPositions st1 auditorId of None \<Rightarrow> [] | Some ps \<Rightarrow> ps)
             in if positions = [] \<or> point_lat (last positions) \<noteq> point_lat newPosition
                     \<or> point_lng (last positions) \<noteq> point_lng newPosition
                then
                  let pushed = positions @ [newPosition];
                      kept = (if length pushed > 20 then tl pushed else pushed)
                  in drawTrail auditorId kept
                       (st1\<lparr>previousPositions := (previousPositions st1)(auditorId \<mapsto> kept)\<rparr>)
                else (st1, [])
         | _ \<Rightarrow> (st, []))
      else (st, []))"

fun updateRouteTrails :: "auditor list \<Rightarrow> trails \<Rightarrow> trails \<times> map_call list" where
  "updateRouteTrails [] st = (st, [])"
| "updateRouteTrails (a # auditors) st =
     (case trailStep a st of
        (st1, calls1) \<Rightarrow>
          (case updateRouteTrails auditors st1 of (st2, calls2) \<Rightarrow> (st2, calls1 @ calls2)))"

subsection \<open>LocationTracker: acquiring a position\<close>

definition maxAttempts :: nat where
  "maxAttempts = 3"

text \<open>
  \<^verbatim>\<open>tryGetLocation\<close> over the outcomes of the successive requests. A success counts an
  attempt and either settles the promise or stores the position and starts the delay before
  the next request; an error settles the promise at once. With no outcome left the promise
  stays pending.
\<close>

fun tryGetLocation :: "geo_outcome list \<Rightarrow> ultra \<Rightarrow> settlement \<times> ultra" where
  "tryGetLocation [] u = (Pending, u)"
| "tryGetLocation (OnSuccess position # script) u =
     (let u1 = u\<lparr>attempts := attempts u + 1, requests := requests u + 1\<rparr>
      in if accuracy position \<le> 20 \<or> attempts u1 \<ge> maxAttempts
         then (Resolved (case bestPosition u1 of Some best \<Rightarrow> best | None \<Rightarrow> position), u1)
         else
           tryGetLocation script
             ((if (case bestPosition u1 of None \<Rightarrow> True | Some best \<Rightarrow> accuracy position < accuracy best)
               then u1\<lparr>bestPosition := Some position\<rparr> else u1)\<lparr>delays := delays u1 + 1\<rparr>))"
| "tryGetLocation (OnError err # script) u =
     (let u1 = u\<lparr>requests := requests u + 1\<rparr>
      in case bestPosition u1 of
           Some best \<Rightarrow> (Resolved best, u1)
         | None \<Rightarrow> (Rejected err, u1))"

definition getCurrentLocationUltraAccuracy :: "geo_outcome list \<Rightarrow> settlement \<times> ultra" where
  "getCurrentLocationUltraAccuracy script =
     tryGetLocation script \<lparr>bestPosition = None, attempts = 0, requests = 0, delays = 0\<rparr>"

subsection \<open>LocationTracker: the session\<close>

definition newTracker :: tracker where
  "newTracker = \<lparr>watchId = None, isTracking = False, sessionId = None, lastUpdate = None,
                 locationHistory = []\<rparr>"

text \<open>
  \<^verbatim>\<open>sendLocationUpdate\<close>: the request goes out with the tracker's session id; a thrown
  fetch or a body with a false \<^verbatim>\<open>success\<close> is an exception (\<open>Inl\<close> its message).
\<close>

definition sendLocationUpdate ::
  "geo_position \<Rightarrow> fetched \<Rightarrow> tracker \<Rightarrow> effect list \<times> (string + response)" where
  "sendLocationUpdate position reply t =
     ([PostLocationUpdate (latitude position) (longitude position) (accuracy position) (sessionId t)],
      (case reply of
         Threw m \<Rightarrow> Inl m
       | Replied result \<Rightarrow>
           if \<not> success result then Inl (or_else (error result) ''Failed to update location'')
           else Inr result))"

text \<open>The \<^verbatim>\<open>catch\<close> block of \<^verbatim>\<open>startTracking\<close>, entered with the message of the exception.\<close>

definition startFailed :: "string \<Rightarrow> tracker \<Rightarrow> effect list \<Rightarrow> tracker \<times> effect list" where
  "startFailed m t done =
     (t\<lparr>isTracking := False\<rparr>, done @ [ShowError (''Failed to start tracking: '' @ m)])"

text \<open>
  \<^verbatim>\<open>startTracking\<close>. Its arguments are what the outside answers: the outcomes of the
  position requests, the answer to the session request, the id \<^verbatim>\<open>watchPosition\<close> returns
  and the answer to the first location report. Watch callbacks that arrive while the report
  is awaited are not interleaved here. The last four bytes of the success message are the
  emoji of the source in UTF-8.
\<close>

definition startTracking ::
  "geo_outcome list \<Rightarrow> fetched \<Rightarrow> nat \<Rightarrow> fetched \<Rightarrow> tracker \<Rightarrow> tracker \<times> effect list" where
  "startTracking script sessionReply wid updateReply t =
     (case fst (getCurrentLocationUltraAccuracy script) of
        Pending \<Rightarrow> (t, [])
      | Rejected err \<Rightarrow> startFailed (message err) t []
      | Resolved position \<Rightarrow>
          (case sessionReply of
             Threw m \<Rightarrow> startFailed m t [PostStartTracking]
           | Replied sessionResponse \<Rightarrow>
               if \<not> success sessionResponse
               then startFailed (or_else (error sessionResponse) ''Failed to start tracking session'')
                      t [PostStartTracking]
               else
                 let t1 = t\<lparr>sessionId := session_id sessionResponse, isTracking := True,
                            watchId := Some wid\<rparr>
                 in (case sendLocationUpdate position updateReply t1 of
                       (sent, Inl m) \<Rightarrow>
                         startFailed m t1 ([PostStartTracking, WatchPosition wid] @ sent)
                     | (sent, Inr result) \<Rightarrow>
                         (t1, [PostStartTracking, WatchPosition wid] @ sent @
                              [UpdateTrackingUI (isTracking t1),
                               ShowSuccess (''High-precision tracking started! '' @
                                 [char_of (240::nat), char_of (159::nat), char_of (142::nat),
                                  char_of (175::nat)])]))))"

text \<open>
  \<^verbatim>\<open>onLocationUpdate\<close>, with the clock reading stored in \<^verbatim>\<open>lastUpdate\<close>; a failed report
  is only logged.
\<close>

definition onLocationUpdate :: "geo_position \<Rightarrow> fetched \<Rightarrow> nat \<Rightarrow> tracker \<Rightarrow> tracker \<times> effect list" where
  "onLocationUpdate position updateReply now t =
     (if \<not> isTracking t then (t, [])
      else
        let pushed = locationHistory t @
                       [\<lparr>h_lat = latitude position, h_lng = longitude position,
                         h_accuracy = accuracy position, h_timestamp = timestamp position\<rparr>];
            t1 = t\<lparr>locationHistory :=
                     (if length pushed > 10 then drop (length pushed - 10) pushed else pushed)\<rparr>
        in (case sendLocationUpdate position updateReply t1 of
              (sent, Inl m) \<Rightarrow> (t1, sent)
            | (sent, Inr result) \<Rightarrow>
                (t1\<lparr>lastUpdate := Some now\<rparr>, sent @ [UpdateLocationDisplay position])))"

text \<open>
  \<^verbatim>\<open>stopTracking\<close>. The session request is made only for a truthy session id; when it
  throws, the rest of the \<^verbatim>\<open>try\<close> block is skipped and the \<^verbatim>\<open>catch\<close> block shows the
  error. The body of its answer is not read.
\<close>

definition stopTracking :: "fetched \<Rightarrow> tracker \<Rightarrow> tracker \<times> effect list" where
  "stopTracking stopReply t =
     (let (t1, cleared) =
            (case watchId t of
               Some w \<Rightarrow> if w \<noteq> 0 then (t\<lparr>watchId := None\<rparr>, [ClearWatch w]) else (t, [])
             | None \<Rightarrow> (t, []));
          finish = (\<lambda>done.
            (t1\<lparr>isTracking := False, sessionId := None, lastUpdate := None\<rparr>,
             done @ [UpdateTrackingUI False,
                     ShowSuccess (''Location tracking stopped '' @
                       [char_of (240::nat), char_of (159::nat), char_of (155::nat),
                        char_of (145::nat)])]))
      in if truthy_str (sessionId t1)
         then (case stopReply of
                 Threw m \<Rightarrow>
                   (t1, cleared @ [PostStopTracking (sessionId t1),
                                   ShowError (''Error stopping tracking: '' @ m)])
               | Replied body \<Rightarrow> finish (cleared @ [PostStopTracking (sessionId t1)]))
         else finish cleared)"

text \<open>\<^verbatim>\<open>onLocationError\<close>, the error callback of the watch.\<close>

definition onLocationError :: "position_error \<Rightarrow> tracker \<Rightarrow> tracker \<times> effect list" where
  "onLocationError err t =
     (if code err = 3 then (t, [])
      else
        let (errorMessage, suggestions, t1) =
              (if code err = 1
               then (''Location permission denied.'',
                     '' Please enable location access in your browser settings.'',
                     t\<lparr>isTracking := False\<rparr>)
               else if code err = 2
               then (''Location unavailable.'', '' Check GPS signal and internet connection.'', t)
               else (''Unknown location error'', [], t))
        in (t1, [ShowError (errorMessage @ suggestions)] @
                (if code err = 1 then [UpdateTrackingUI (isTracking t1)] else [])))"

text \<open>
  The two resting states of the controller in terms of the fields: idle holds nothing,
  active holds a live watch and a session. The tests of \<^verbatim>\<open>stopTracking\<close> are truthiness
  tests, so a live watch is an id other than 0 (the ids \<^verbatim>\<open>watchPosition\<close> hands out are
  positive) and a session is a non-empty id.
\<close>

definition Idle :: "tracker \<Rightarrow> bool" where
  "Idle t = (\<not> isTracking t \<and> watchId t = None \<and> sessionId t = None)"

definition Active :: "tracker \<Rightarrow> bool" where
  "Active t = (isTracking t \<and> truthy_nat (watchId t) \<and> truthy_str (sessionId t))"

subsection \<open>Scripted inputs\<close>

text \<open>Concrete values on which the theorems below are run.\<close>

definition fixOf :: "real \<Rightarrow> nat \<Rightarrow> geo_position" where
  "fixOf acc ts = \<lparr>latitude = 10.5, longitude = 76.25, accuracy = acc, timestamp = ts\<rparr>"

definition timedOut :: position_error where
  "timedOut = \<lparr>code = 3, message = ''Timeout expired''\<rparr>"

definition permissionDenied :: position_error where
  "permissionDenied = \<lparr>code = 1, message = ''User denied Geolocation''\<rparr>"

definition okBody :: response where
  "okBody = \<lparr>success = True, session_id = None, error = None\<rparr>"

definition acceptedBody :: response where
  "acceptedBody = \<lparr>success = True, session_id = Some ''s1'', error = None\<rparr>"

definition rejectedBody :: response where
  "rejectedBody = \<lparr>success = False, session_id = None, error = Some ''Not authorised''\<rparr>"

definition trackingState :: tracker where
  "trackingState =
     \<lparr>watchId = Some 7, isTracking = True, sessionId = Some ''s1'', lastUpdate = Some 1000,
      locationHistory = [\<lparr>h_lat = 10.5, h_lng = 76.25, h_accuracy = 35, h_timestamp = 900\<rparr>]\<rparr>"

definition emptyTrails :: trails where
  "emptyTrails = \<lparr>previousPositions = Map.empty, routes = Map.empty\<rparr>"

definition seen :: "string \<Rightarrow> string \<Rightarrow> real \<Rightarrow> real \<Rightarrow> auditor" where
  "seen i status la lo =
     \<lparr>auditor_id = i, username = ''asha'', status_class = status, auditor_accuracy = Some 12,
      lat = Some la, lng = Some lo, last_update = ''10:00''\<rparr>"

section \<open>Acquisition\<close>

lemma tryGetLocation_error:
  "fst (tryGetLocation (OnError err # script) u) =
     (case bestPosition u of Some best \<Rightarrow> Resolved best | None \<Rightarrow> Rejected err)"
  by (simp split: option.splits)

lemma tryGetLocation_accept:
  assumes "accuracy position \<le> 20"
  shows "tryGetLocation (OnSuccess position # script) u =
           (Resolved (case bestPosition u of Some best \<Rightarrow> best | None \<Rightarrow> position),
            u\<lparr>attempts := attempts u + 1, requests := requests u + 1\<rparr>)"
  using assms by (simp add: Let_def)

text \<open>
  The promise settles as soon as the outcomes at hand reach the attempt budget: the recursion
  does not go on for ever.
\<close>

lemma tryGetLocation_settles:
  "attempts u < maxAttempts \<Longrightarrow> maxAttempts \<le> attempts u + length script \<Longrightarrow>
   fst (tryGetLocation script u) \<noteq> Pending"
proof (induction script arbitrary: u)
  case Nil
  then show ?case by simp
next
  case (Cons out script)
  show ?case
  proof (cases out)
    case (OnSuccess position)
    then show ?thesis using Cons.prems Cons.IH
      by (simp add: Let_def)
  next
    case (OnError err)
    then show ?thesis by (simp add: Let_def split: option.splits)
  qed
qed

lemma ultra_settles:
  "3 \<le> length script \<Longrightarrow> fst (getCurrentLocationUltraAccuracy script) \<noteq> Pending"
  unfolding getCurrentLocationUltraAccuracy_def
  by (rule tryGetLocation_settles) (simp_all add: maxAttempts_def)

text \<open>A first fix within 20m is the one returned, after one request and no delay.\<close>

lemma ultra_first_fix_good:
  "accuracy position \<le> 20 \<Longrightarrow>
   getCurrentLocationUltraAccuracy (OnSuccess position # script) =
     (Resolved position, \<lparr>bestPosition = None, attempts = 1, requests = 1, delays = 0\<rparr>)"
  by (simp add: getCurrentLocationUltraAccuracy_def)

text \<open>
  Three fixes, the first two above 20m: the promise resolves on the third with the better of
  the first two, whatever the accuracy of the third.
\<close>

lemma ultra_third_fix:
  assumes "20 < accuracy p1" and "20 < accuracy p2"
  shows "fst (getCurrentLocationUltraAccuracy (OnSuccess p1 # OnSuccess p2 # OnSuccess p3 # script)) =
           Resolved (if accuracy p2 < accuracy p1 then p2 else p1)"
  using assms by (simp add: getCurrentLocationUltraAccuracy_def maxAttempts_def Let_def)

lemma ultra_scripted_300_250_280:
  "getCurrentLocationUltraAccuracy
     [OnSuccess (fixOf 300 1), OnSuccess (fixOf 250 2), OnSuccess (fixOf 280 3)] =
   (Resolved (fixOf 250 2),
    \<lparr>bestPosition = Some (fixOf 250 2), attempts = 3, requests = 3, delays = 2\<rparr>)"
  by (simp add: getCurrentLocationUltraAccuracy_def maxAttempts_def fixOf_def)

text \<open>
  C1. A fix within 20m settles the promise at once, but with \<^verbatim>\<open>bestPosition || position\<close>:
  when an earlier fix has been stored, the stored one is returned. On the scripted accuracies
  300m, 80m, 15m the promise resolves after three requests and two delays with the 80m fix,
  not with the 15m one.
\<close>

theorem ultra_scripted_300_80_15:
  "getCurrentLocationUltraAccuracy
     [OnSuccess (fixOf 300 1), OnSuccess (fixOf 80 2), OnSuccess (fixOf 15 3)] =
   (Resolved (fixOf 80 2),
    \<lparr>bestPosition = Some (fixOf 80 2), attempts = 3, requests = 3, delays = 2\<rparr>)"
  by (simp add: getCurrentLocationUltraAccuracy_def maxAttempts_def fixOf_def)

text \<open>
  C2. When the budget of three attempts runs out, the fix of the third attempt is not compared
  with the stored one: on the accuracies 300m, 250m, 100m the promise resolves with the 250m
  fix although the 100m fix is the best one seen.
\<close>

theorem ultra_scripted_300_250_100:
  "getCurrentLocationUltraAccuracy
     [OnSuccess (fixOf 300 1), OnSuccess (fixOf 250 2), OnSuccess (fixOf 100 3)] =
   (Resolved (fixOf 250 2),
    \<lparr>bestPosition = Some (fixOf 250 2), attempts = 3, requests = 3, delays = 2\<rparr>)"
  by (simp add: getCurrentLocationUltraAccuracy_def maxAttempts_def fixOf_def)

text \<open>
  C9. An attempt that fails is reached after fewer than three fixes, all above 20m. If it is
  the first attempt, the promise rejects with its error; otherwise the promise resolves with
  a fix of the earlier attempts of lowest accuracy radius. The failing attempt is the last
  request made.
\<close>

theorem ultra_error_outcome:
  assumes "\<forall>p \<in> set ps. 20 < accuracy p" and "length ps < maxAttempts"
  shows "(ps = [] \<longrightarrow>
            fst (getCurrentLocationUltraAccuracy (map OnSuccess ps @ OnError err # script)) =
              Rejected err)
       \<and> (ps \<noteq> [] \<longrightarrow>
            (\<exists>best \<in> set ps.
               fst (getCurrentLocationUltraAccuracy (map OnSuccess ps @ OnError err # script)) =
                 Resolved best
               \<and> (\<forall>p \<in> set ps. accuracy best \<le> accuracy p)))
       \<and> requests (snd (getCurrentLocationUltraAccuracy (map OnSuccess ps @ OnError err # script))) =
            length ps + 1"
proof -
  consider "ps = []" | p1 where "ps = [p1]" | p1 p2 where "ps = [p1, p2]"
    using assms(2) unfolding maxAttempts_def
    by (cases ps; cases "tl ps"; cases "tl (tl ps)") auto
  then show ?thesis
  proof cases
    case 1
    then show ?thesis by (simp add: getCurrentLocationUltraAccuracy_def)
  next
    case 2
    then show ?thesis using assms(1)
      by (simp add: getCurrentLocationUltraAccuracy_def maxAttempts_def)
  next
    case 3
    then show ?thesis using assms(1)
      by (cases "accuracy p2 < accuracy p1")
         (auto simp add: getCurrentLocationUltraAccuracy_def maxAttempts_def Let_def)
  qed
qed

theorem ultra_error_outcome_witness:
  "fst (getCurrentLocationUltraAccuracy
          (map OnSuccess [fixOf 300 1, fixOf 80 2] @ OnError timedOut # [])) = Resolved (fixOf 80 2)
   \<and> fst (getCurrentLocationUltraAccuracy (map OnSuccess [] @ OnError timedOut # [])) =
       Rejected timedOut
   \<and> requests (snd (getCurrentLocationUltraAccuracy
          (map OnSuccess [fixOf 300 1, fixOf 80 2] @ OnError timedOut # []))) = 3"
  using ultra_error_outcome [of "[fixOf 300 1, fixOf 80 2]" timedOut "[]"]
    ultra_error_outcome [of "[]" timedOut "[]"]
  by (simp add: fixOf_def maxAttempts_def)

section \<open>The tracking session\<close>

text \<open>
  The scripted tracking state is the one a successful start followed by one watch update
  leaves behind.
\<close>

lemma trackingState_reachable:
  "fst (onLocationUpdate (fixOf 35 900) (Replied okBody) 1000
         (fst (startTracking [OnSuccess (fixOf 15 800)] (Replied acceptedBody) 7 (Replied okBody)
                 newTracker))) = trackingState"
  by (simp add: onLocationUpdate_def startTracking_def getCurrentLocationUltraAccuracy_def
      sendLocationUpdate_def newTracker_def trackingState_def fixOf_def okBody_def
      acceptedBody_def Let_def)

lemma trackingState_Active: "Active trackingState"
  by (simp add: Active_def trackingState_def truthy_nat_def truthy_str_def)

lemma newTracker_Idle: "Idle newTracker"
  by (simp add: Idle_def newTracker_def)

text \<open>A timeout of the watch changes nothing and shows nothing.\<close>

lemma onLocationError_timeout: "code err = 3 \<Longrightarrow> onLocationError err t = (t, [])"
  by (simp add: onLocationError_def)

text \<open>An unavailable position is shown as an error and leaves the fields as they are.\<close>

lemma onLocationError_unavailable:
  "code err = 2 \<Longrightarrow>
   onLocationError err t =
     (t, [ShowError ''Location unavailable. Check GPS signal and internet connection.''])"
  by (simp add: onLocationError_def)

text \<open>
  Whatever the fields were, a denied permission only lowers \<^verbatim>\<open>isTracking\<close>: the watch id
  and the session id are the ones before, and \<^verbatim>\<open>clearWatch\<close> is not called.
\<close>

lemma onLocationError_denied:
  "code err = 1 \<Longrightarrow>
   onLocationError err t =
     (t\<lparr>isTracking := False\<rparr>,
      [ShowError ''Location permission denied. Please enable location access in your browser settings.'',
       UpdateTrackingUI False])"
  by (simp add: onLocationError_def)

text \<open>
  C3. A denied permission delivered in the tracking state lowers \<^verbatim>\<open>isTracking\<close> and shows
  the error, and that is all: the watch id 7 and the session id stay in the fields, no
  \<^verbatim>\<open>clearWatch\<close> is issued, and the state reached is not the idle one.
\<close>

theorem permission_denied_keeps_watch_and_session:
  "Active trackingState
   \<and> fst (onLocationError permissionDenied trackingState) = trackingState\<lparr>isTracking := False\<rparr>
   \<and> watchId (fst (onLocationError permissionDenied trackingState)) = Some 7
   \<and> sessionId (fst (onLocationError permissionDenied trackingState)) = Some ''s1''
   \<and> snd (onLocationError permissionDenied trackingState) =
       [ShowError ''Location permission denied. Please enable location access in your browser settings.'',
        UpdateTrackingUI False]
   \<and> \<not> Idle (fst (onLocationError permissionDenied trackingState))"
  by (simp add: onLocationError_def permissionDenied_def trackingState_def Active_def Idle_def
      truthy_nat_def truthy_str_def)

text \<open>
  What \<^verbatim>\<open>stopTracking\<close> does from the active state. It always cancels the watch and
  never touches the location history. When the session request is answered, the session id is
  cleared and the idle state is reached. When the session request throws, the error is shown.
\<close>

lemma stop_from_active:
  assumes "Active t"
  shows "(\<exists>w. watchId t = Some w \<and> ClearWatch w \<in> set (snd (stopTracking reply t)))
       \<and> watchId (fst (stopTracking reply t)) = None
       \<and> locationHistory (fst (stopTracking reply t)) = locationHistory t
       \<and> (reply = Replied body \<longrightarrow>
            Idle (fst (stopTracking reply t)) \<and> ShowError shown \<notin> set (snd (stopTracking reply t)))
       \<and> (reply = Threw m \<longrightarrow>
            ShowError (''Error stopping tracking: '' @ m) \<in> set (snd (stopTracking reply t)))"
  using assms
  by (cases reply)
     (auto simp add: stopTracking_def Active_def Idle_def truthy_nat_def truthy_str_def Let_def
           split: option.splits)

lemma stop_from_active_run:
  "Active trackingState
   \<and> ClearWatch 7 \<in> set (snd (stopTracking (Replied okBody) trackingState))
   \<and> Idle (fst (stopTracking (Replied okBody) trackingState))
   \<and> locationHistory (fst (stopTracking (Replied okBody) trackingState)) =
       locationHistory trackingState
   \<and> ShowError ''Error stopping tracking: Failed to fetch''
       \<in> set (snd (stopTracking (Threw ''Failed to fetch'') trackingState))"
proof -
  have watch: "watchId trackingState = Some 7"
    by (simp add: trackingState_def)
  from stop_from_active [OF trackingState_Active,
      where reply = "Replied okBody" and body = okBody]
    stop_from_active [OF trackingState_Active,
      where reply = "Threw ''Failed to fetch''" and m = "''Failed to fetch''"]
  show ?thesis
    using watch trackingState_Active by simp
qed

text \<open>
  No path through \<^verbatim>\<open>stopTracking\<close> writes the location history, whatever the state and
  whatever the session request ends with.
\<close>

lemma stopTracking_history:
  "locationHistory (fst (stopTracking reply t)) = locationHistory t"
  by (cases reply)
     (auto simp add: stopTracking_def Let_def split: option.splits)

text \<open>
  From any active state, a session request that throws leaves the \<^verbatim>\<open>try\<close> block before the
  resets: the watch is gone, while \<^verbatim>\<open>isTracking\<close>, the session id and \<^verbatim>\<open>lastUpdate\<close> are
  the ones before.
\<close>

lemma stop_thrown_state:
  assumes "Active t"
  shows "fst (stopTracking (Threw m) t) = t\<lparr>watchId := None\<rparr>"
  using assms
  by (auto simp add: stopTracking_def Active_def truthy_nat_def truthy_str_def Let_def
        split: option.splits)

text \<open>
  C4. Stopped from the tracking state with a session request that throws, the controller
  cancels watch 7 and shows the error, and stops there: \<^verbatim>\<open>isTracking\<close> is still true and
  the session id is still in its field, so the state reached is neither idle nor active. The
  failure of the session endpoint does block the transition.
\<close>

theorem stop_request_thrown_blocks_transition:
  "Active trackingState
   \<and> stopTracking (Threw ''Failed to fetch'') trackingState =
       (trackingState\<lparr>watchId := None\<rparr>,
        [ClearWatch 7, PostStopTracking (Some ''s1''),
         ShowError ''Error stopping tracking: Failed to fetch''])
   \<and> isTracking (fst (stopTracking (Threw ''Failed to fetch'') trackingState))
   \<and> sessionId (fst (stopTracking (Threw ''Failed to fetch'') trackingState)) = Some ''s1''
   \<and> \<not> Idle (fst (stopTracking (Threw ''Failed to fetch'') trackingState))
   \<and> \<not> Active (fst (stopTracking (Threw ''Failed to fetch'') trackingState))"
  by (simp add: stopTracking_def trackingState_def Active_def Idle_def truthy_nat_def
      truthy_str_def)

text \<open>
  What \<^verbatim>\<open>startTracking\<close> leaves behind when the session is accepted and the first report
  fails: the new session id and the new watch id, with \<^verbatim>\<open>isTracking\<close> lowered by the
  \<^verbatim>\<open>catch\<close> block.
\<close>

lemma start_report_failed:
  assumes "fst (getCurrentLocationUltraAccuracy script) = Resolved position"
    and "success body"
  shows "fst (startTracking script (Replied body) wid (Threw m) t) =
           t\<lparr>sessionId := session_id body, isTracking := False, watchId := Some wid\<rparr>"
  using assms by (simp add: startTracking_def sendLocationUpdate_def startFailed_def)

text \<open>
  C5. Started from the idle state, with the position acquired and the session accepted, a
  first report that fails leaves the controller neither idle nor active: \<^verbatim>\<open>isTracking\<close> is
  false while the watch registered under id 7 is never cancelled and the session id is kept.
\<close>

theorem start_report_failure_leaves_watch:
  "Idle newTracker
   \<and> startTracking [OnSuccess (fixOf 15 800)] (Replied acceptedBody) 7 (Threw ''Failed to fetch'')
       newTracker =
       (newTracker\<lparr>sessionId := Some ''s1'', watchId := Some 7\<rparr>,
        [PostStartTracking, WatchPosition 7, PostLocationUpdate 10.5 76.25 15 (Some ''s1''),
         ShowError ''Failed to start tracking: Failed to fetch''])
   \<and> \<not> Idle (fst (startTracking [OnSuccess (fixOf 15 800)] (Replied acceptedBody) 7
                     (Threw ''Failed to fetch'') newTracker))
   \<and> \<not> Active (fst (startTracking [OnSuccess (fixOf 15 800)] (Replied acceptedBody) 7
                       (Threw ''Failed to fetch'') newTracker))"
  by (simp add: startTracking_def getCurrentLocationUltraAccuracy_def sendLocationUpdate_def
      startFailed_def newTracker_def fixOf_def acceptedBody_def Idle_def Active_def)

text \<open>
  C7. Started from the idle state with a position acquired, a session request answered with
  a false \<^verbatim>\<open>success\<close> leaves every field as it was, so the controller is still idle; the
  only calls made are the session request and the error message, which carries the reason the
  server gave (or the default text when it gave none); no watch is registered.
\<close>

theorem start_rejected:
  assumes "Idle t"
    and "fst (getCurrentLocationUltraAccuracy script) = Resolved position"
    and "\<not> success body"
  shows "fst (startTracking script (Replied body) wid updateReply t) = t
       \<and> Idle (fst (startTracking script (Replied body) wid updateReply t))
       \<and> snd (startTracking script (Replied body) wid updateReply t) =
           [PostStartTracking,
            ShowError (''Failed to start tracking: '' @
              or_else (error body) ''Failed to start tracking session'')]
       \<and> WatchPosition w \<notin> set (snd (startTracking script (Replied body) wid updateReply t))"
  using assms by (simp add: startTracking_def startFailed_def Idle_def)

theorem start_rejected_witness:
  "Idle newTracker
   \<and> fst (getCurrentLocationUltraAccuracy [OnSuccess (fixOf 15 800)]) = Resolved (fixOf 15 800)
   \<and> \<not> success rejectedBody
   \<and> startTracking [OnSuccess (fixOf 15 800)] (Replied rejectedBody) 7 (Replied okBody) newTracker =
       (newTracker, [PostStartTracking, ShowError ''Failed to start tracking: Not authorised''])"
proof -
  have acquired:
    "fst (getCurrentLocationUltraAccuracy [OnSuccess (fixOf 15 800)]) = Resolved (fixOf 15 800)"
    by (simp add: getCurrentLocationUltraAccuracy_def fixOf_def)
  have rejected: "\<not> success rejectedBody"
    by (simp add: rejectedBody_def)
  from start_rejected [OF newTracker_Idle acquired rejected, of 7 "Replied okBody" 7]
  show ?thesis
    using acquired rejected newTracker_Idle
    by (simp add: prod_eq_iff rejectedBody_def or_else_def)
qed

section \<open>Alerts\<close>

lemma alertKey_inject: "alertKey k e = alertKey k' e' \<longleftrightarrow> k = k' \<and> e = e'"
  by (cases k; cases k') auto

lemma hasAlert_iff: "hasAlert i alerts \<longleftrightarrow> i \<in> alert_id ` set alerts"
  by (auto simp add: hasAlert_def list_ex_iff)

lemma distinct_addAlert:
  "distinct (map alert_id alerts) \<Longrightarrow> \<not> hasAlert (alert_id a) alerts \<Longrightarrow>
   distinct (map alert_id (addAlert a alerts))"
  by (simp add: addAlert_def hasAlert_iff)

lemma distinct_removeAlert:
  "distinct (map alert_id alerts) \<Longrightarrow> distinct (map alert_id (removeAlert i alerts))"
  by (simp add: removeAlert_def distinct_map_filter)

lemma offlineAlert_id: "alert_id (offlineAlert now a) = alertKey Offline (auditor_id a)"
  by (simp add: offlineAlert_def)

lemma accuracyAlert_id: "alert_id (accuracyAlert now a) = alertKey LowAccuracy (auditor_id a)"
  by (simp add: accuracyAlert_def)

lemma distinct_guarded_add:
  "distinct (map alert_id alerts) \<Longrightarrow> alert_id a = i \<Longrightarrow>
   distinct (map alert_id (if c \<and> \<not> hasAlert i alerts then addAlert a alerts else alerts))"
  by (simp add: distinct_addAlert)

lemma distinct_checkAuditor:
  assumes "distinct (map alert_id alerts)"
  shows "distinct (map alert_id (checkAuditor now a alerts))"
proof -
  define alerts1 where "alerts1 =
    (if status_class a = ''offline'' \<and> \<not> hasAlert (alertKey Offline (auditor_id a)) alerts
     then addAlert (offlineAlert now a) alerts else alerts)"
  define alerts2 where "alerts2 =
    (if over500 (auditor_accuracy a) \<and> \<not> hasAlert (alertKey LowAccuracy (auditor_id a)) alerts1
     then addAlert (accuracyAlert now a) alerts1 else alerts1)"
  have 1: "distinct (map alert_id alerts1)"
    unfolding alerts1_def using assms offlineAlert_id by (rule distinct_guarded_add)
  have 2: "distinct (map alert_id alerts2)"
    unfolding alerts2_def using 1 accuracyAlert_id by (rule distinct_guarded_add)
  have "checkAuditor now a alerts =
          (if status_class a = ''online''
           then removeAlert (alertKey LowAccuracy (auditor_id a))
                  (removeAlert (alertKey Offline (auditor_id a)) alerts2)
           else alerts2)"
    unfolding checkAuditor_def alerts1_def alerts2_def Let_def ..
  with 2 show ?thesis
    by (simp add: distinct_removeAlert del: alertKey.simps)
qed

lemma distinct_checkForAlerts:
  "distinct (map alert_id alerts) \<Longrightarrow> distinct (map alert_id (checkForAlerts now auditors alerts))"
  unfolding checkForAlerts_def
  by (induction auditors arbitrary: alerts) (simp_all add: distinct_checkAuditor)

lemma distinct_alertsAfter: "distinct (map alert_id (alertsAfter calls))"
proof -
  have "distinct (map alert_id alerts) \<Longrightarrow>
        distinct (map alert_id
          (foldl (\<lambda>als (now, auditors). checkForAlerts now auditors als) alerts calls))"
    for alerts
    by (induction calls arbitrary: alerts) (auto simp add: distinct_checkForAlerts)
  then show ?thesis by (simp add: alertsAfter_def)
qed

lemma distinct_count_le_1:
  "distinct (map f xs) \<Longrightarrow> length (filter (\<lambda>x. f x = k) xs) \<le> 1"
  by (induction xs) (auto simp add: filter_empty_conv image_iff)

text \<open>
  Every alert in the list was built for one kind and one auditor: its id is the key of that
  pair and its title is the title of the kind. Two pairs never share a key
  (\<open>alertKey_inject\<close>), so an alert belongs to exactly one pair.
\<close>

lemma alertsAfter_keyed:
  assumes "x \<in> set (alertsAfter calls)"
  shows "\<exists>kind entity. alert_id x = alertKey kind entity
           \<and> title x = (case kind of Offline \<Rightarrow> ''Auditor Offline''
                                   | LowAccuracy \<Rightarrow> ''Low Location Accuracy'')"
proof -
  define keyed where "keyed = (\<lambda>a::alert. \<exists>kind entity. alert_id a = alertKey kind entity
           \<and> title a = (case kind of Offline \<Rightarrow> ''Auditor Offline''
                                   | LowAccuracy \<Rightarrow> ''Low Location Accuracy''))"
  have new: "keyed (offlineAlert now a)" "keyed (accuracyAlert now a)" for now a
  proof -
    have "alert_id (offlineAlert now a) = alertKey Offline (auditor_id a)
          \<and> title (offlineAlert now a) = (case Offline of Offline \<Rightarrow> ''Auditor Offline''
                                   | LowAccuracy \<Rightarrow> ''Low Location Accuracy'')"
      by (simp add: offlineAlert_def)
    then show "keyed (offlineAlert now a)" unfolding keyed_def by blast
    have "alert_id (accuracyAlert now a) = alertKey LowAccuracy (auditor_id a)
          \<and> title (accuracyAlert now a) = (case LowAccuracy of Offline \<Rightarrow> ''Auditor Offline''
                                   | LowAccuracy \<Rightarrow> ''Low Location Accuracy'')"
      by (simp add: accuracyAlert_def)
    then show "keyed (accuracyAlert now a)" unfolding keyed_def by blast
  qed
  have step: "list_all keyed (checkAuditor now a alerts)" if "list_all keyed alerts" for now a alerts
    using that new [of now a]
    unfolding checkAuditor_def Let_def addAlert_def removeAlert_def
    by (auto simp add: list_all_iff simp del: alertKey.simps)
  have call: "list_all keyed (checkForAlerts now auditors alerts)"
    if "list_all keyed alerts" for now auditors alerts
    using that unfolding checkForAlerts_def
    by (induction auditors arbitrary: alerts) (simp_all add: step)
  have "list_all keyed (foldl (\<lambda>als (now, auditors). checkForAlerts now auditors als) alerts calls)"
    if "list_all keyed alerts" for alerts
    using that by (induction calls arbitrary: alerts) (simp_all add: call split: prod.splits)
  from this [of "[]"] have "list_all keyed (alertsAfter calls)"
    by (simp add: alertsAfter_def)
  with assms have "keyed x"
    by (simp add: list_all_iff)
  then show ?thesis
    unfolding keyed_def .
qed

text \<open>
  C6. After any run of \<^verbatim>\<open>checkForAlerts\<close> calls the ids in the alert list are pairwise
  different, so for every kind and every auditor id at most one alert of the list carries the
  key of that pair.
\<close>

theorem alerts_unique:
  "distinct (map alert_id (alertsAfter calls))
   \<and> length (filter (\<lambda>a. alert_id a = alertKey kind entity) (alertsAfter calls)) \<le> 1"
proof
  show "distinct (map alert_id (alertsAfter calls))"
    by (rule distinct_alertsAfter)
  then show "length (filter (\<lambda>a. alert_id a = alertKey kind entity) (alertsAfter calls)) \<le> 1"
    by (rule distinct_count_le_1)
qed

text \<open>An auditor seen offline in two successive snapshots has one offline alert, the first.\<close>

theorem alerts_unique_witness:
  "alertsAfter [(1, [seen ''7'' ''offline'' 10 76]), (2, [seen ''7'' ''offline'' 10 76])] =
     [offlineAlert 1 (seen ''7'' ''offline'' 10 76)]
   \<and> length (filter (\<lambda>a. alert_id a = alertKey Offline ''7'')
        (alertsAfter [(1, [seen ''7'' ''offline'' 10 76]), (2, [seen ''7'' ''offline'' 10 76])])) \<le> 1"
  using alerts_unique [of "[(1, [seen ''7'' ''offline'' 10 76]), (2, [seen ''7'' ''offline'' 10 76])]"
      Offline "''7''"]
  by (simp add: alertsAfter_def checkForAlerts_def checkAuditor_def hasAlert_def addAlert_def
      over500_def seen_def offlineAlert_def)

section \<open>Route trails\<close>

lemma trailStep_falsy:
  "\<not> (truthy_num (lat a) \<and> truthy_num (lng a)) \<Longrightarrow> trailStep a st = (st, [])"
  unfolding trailStep_def by (simp only: if_False)

lemma trailStep_same_point:
  assumes "previousPositions st (auditor_id a) = Some ps" and "ps \<noteq> []"
    and "lat a = Some (point_lat (last ps))" and "lng a = Some (point_lng (last ps))"
  shows "trailStep a st = (st, [])"
  using assms by (simp add: trailStep_def Let_def)

lemma updateRouteTrails_append:
  "updateRouteTrails (xs @ ys) st =
     (case updateRouteTrails xs st of
        (st1, calls1) \<Rightarrow>
          (case updateRouteTrails ys st1 of (st2, calls2) \<Rightarrow> (st2, calls1 @ calls2)))"
  by (induction xs arbitrary: st) (auto split: prod.splits)

text \<open>An auditor whose step changes nothing can be dropped from the snapshot.\<close>

lemma updateRouteTrails_skip:
  assumes "trailStep a (fst (updateRouteTrails xs st)) = (fst (updateRouteTrails xs st), [])"
  shows "updateRouteTrails (xs @ a # ys) st = updateRouteTrails (xs @ ys) st"
proof -
  obtain st1 calls1 where s1: "updateRouteTrails xs st = (st1, calls1)"
    by (cases "updateRouteTrails xs st")
  with assms have "trailStep a st1 = (st1, [])" by simp
  with s1 show ?thesis
    by (simp add: updateRouteTrails_append split: prod.splits)
qed

lemma drawTrail_polylines:
  "NewPolyline i p \<in> set (snd (drawTrail auditorId positions st)) \<Longrightarrow> 2 \<le> length p"
  by (auto simp add: drawTrail_def Let_def split: if_splits option.splits)

lemma trailStep_polylines:
  "NewPolyline i p \<in> set (snd (trailStep a st)) \<Longrightarrow> 2 \<le> length p"
  unfolding trailStep_def Let_def
  by (auto split: if_splits option.splits prod.splits dest: drawTrail_polylines)

lemma updateRouteTrails_polylines:
  "NewPolyline i p \<in> set (snd (updateRouteTrails auditors st)) \<Longrightarrow> 2 \<le> length p"
proof (induction auditors arbitrary: st)
  case Nil
  then show ?case by simp
next
  case (Cons a auditors)
  obtain st1 calls1 where s1: "trailStep a st = (st1, calls1)"
    by (cases "trailStep a st")
  obtain st2 calls2 where s2: "updateRouteTrails auditors st1 = (st2, calls2)"
    by (cases "updateRouteTrails auditors st1")
  from Cons.prems s1 s2 have "NewPolyline i p \<in> set calls1 \<or> NewPolyline i p \<in> set calls2"
    by simp
  then show ?case
  proof
    assume "NewPolyline i p \<in> set calls1"
    with s1 show ?thesis using trailStep_polylines [of i p a st] by simp
  next
    assume "NewPolyline i p \<in> set calls2"
    with s2 show ?thesis using Cons.IH [of st1] by simp
  qed
qed

text \<open>A polyline put on the map covers the trail as it is stored after the step.\<close>

lemma drawTrail_stored:
  assumes "NewPolyline i p \<in> set (snd (drawTrail auditorId positions st))"
  shows "i = auditorId \<and> p = map (\<lambda>pos. (point_lat pos, point_lng pos)) positions
         \<and> 2 \<le> length positions
         \<and> previousPositions (fst (drawTrail auditorId positions st)) = previousPositions st"
  using assms by (auto simp add: drawTrail_def Let_def split: if_splits option.splits)

lemma trailStep_renders_stored:
  assumes "NewPolyline i p \<in> set (snd (trailStep a st))"
  shows "\<exists>ps. previousPositions (fst (trailStep a st)) i = Some ps
            \<and> p = map (\<lambda>pos. (point_lat pos, point_lng pos)) ps \<and> 2 \<le> length ps"
proof (cases "truthy_num (lat a) \<and> truthy_num (lng a)")
  case False
  then have "trailStep a st = (st, [])"
    by (rule trailStep_falsy)
  with assms show ?thesis by simp
next
  case True
  then obtain la lo where coords: "lat a = Some la" "lng a = Some lo"
    by (auto simp add: truthy_num_def split: option.splits)
  show ?thesis
  proof (cases "previousPositions st (auditor_id a)")
    case None
    with assms True coords show ?thesis
      unfolding trailStep_def Let_def
      by (auto split: if_splits dest!: drawTrail_stored)
  next
    case (Some ps)
    with assms True coords show ?thesis
      unfolding trailStep_def Let_def
      by (auto split: if_splits dest!: drawTrail_stored)
  qed
qed

text \<open>
  C8. Within a call of \<^verbatim>\<open>updateRouteTrails\<close>, an auditor whose coordinates are those of the
  last point stored in its trail contributes nothing: the call ends in the same state and makes
  the same calls to the map as the call without that auditor. Every polyline a call puts
  on the map has at least two points, and the polyline a step puts on the map is the stored
  trail of that auditor, which then holds at least two points.
\<close>

theorem trail_same_point_noop:
  assumes "previousPositions (fst (updateRouteTrails before st)) (auditor_id a) = Some ps"
    and "ps \<noteq> []"
    and "lat a = Some (point_lat (last ps))" and "lng a = Some (point_lng (last ps))"
  shows "updateRouteTrails (before @ a # after) st = updateRouteTrails (before @ after) st
       \<and> (\<forall>call \<in> set (snd (updateRouteTrails auditors st0)).
            \<forall>i p. call = NewPolyline i p \<longrightarrow> 2 \<le> length p)
       \<and> (\<forall>call \<in> set (snd (trailStep b s)).
            \<forall>i p. call = NewPolyline i p \<longrightarrow>
              (\<exists>stored. previousPositions (fst (trailStep b s)) i = Some stored
                 \<and> p = map (\<lambda>pos. (point_lat pos, point_lng pos)) stored
                 \<and> 2 \<le> length stored))"
proof (intro conjI)
  show "updateRouteTrails (before @ a # after) st = updateRouteTrails (before @ after) st"
    using assms by (intro updateRouteTrails_skip trailStep_same_point)
  show "\<forall>call \<in> set (snd (updateRouteTrails auditors st0)).
          \<forall>i p. call = NewPolyline i p \<longrightarrow> 2 \<le> length p"
    using updateRouteTrails_polylines by blast
  show "\<forall>call \<in> set (snd (trailStep b s)).
          \<forall>i p. call = NewPolyline i p \<longrightarrow>
            (\<exists>stored. previousPositions (fst (trailStep b s)) i = Some stored
               \<and> p = map (\<lambda>pos. (point_lat pos, point_lng pos)) stored
               \<and> 2 \<le> length stored)"
    using trailStep_renders_stored by blast
qed

theorem trail_same_point_noop_witness:
  "updateRouteTrails ([seen ''7'' ''online'' 10 76] @ seen ''7'' ''online'' 10 76
                        # [seen ''7'' ''online'' 11 76]) emptyTrails =
     updateRouteTrails ([seen ''7'' ''online'' 10 76] @ [seen ''7'' ''online'' 11 76]) emptyTrails
   \<and> snd (updateRouteTrails [seen ''7'' ''online'' 10 76, seen ''7'' ''online'' 11 76] emptyTrails) =
       [NewPolyline ''7'' [(10, 76), (11, 76)]]"
proof -
  have stored:
    "previousPositions (fst (updateRouteTrails [seen ''7'' ''online'' 10 76] emptyTrails))
       (auditor_id (seen ''7'' ''online'' 10 76)) =
     Some [\<lparr>point_lat = 10, point_lng = 76, point_timestamp = ''10:00''\<rparr>]"
    by (simp add: trailStep_def drawTrail_def seen_def emptyTrails_def truthy_num_def Let_def)
  from trail_same_point_noop [OF stored,
      of "[seen ''7'' ''online'' 11 76]"
         "[seen ''7'' ''online'' 10 76, seen ''7'' ''online'' 11 76]" emptyTrails]
  show ?thesis
    by (simp add: trailStep_def drawTrail_def seen_def emptyTrails_def truthy_num_def Let_def)
qed

text \<open>
  C10. An auditor whose latitude or longitude is the number 0 fails the truthiness test:
  its step changes nothing and makes no call to the map, and a call of
  \<^verbatim>\<open>updateRouteTrails\<close> ends as the call without that auditor does.
\<close>

theorem trail_zero_coordinate_skipped:
  assumes "lat a = Some 0 \<or> lng a = Some 0"
  shows "trailStep a st = (st, [])
       \<and> updateRouteTrails (before @ a # after) st0 = updateRouteTrails (before @ after) st0"
proof -
  have "\<not> (truthy_num (lat a) \<and> truthy_num (lng a))"
    using assms by (auto simp add: truthy_num_def)
  then have "trailStep a s = (s, [])" for s
    by (rule trailStep_falsy)
  then show ?thesis
    by (simp add: updateRouteTrails_skip)
qed

theorem trail_zero_coordinate_skipped_witness:
  "lat (seen ''7'' ''online'' 0 76) = Some 0
   \<and> lng (seen ''7'' ''online'' 0 76) = Some 76
   \<and> trailStep (seen ''7'' ''online'' 0 76) emptyTrails = (emptyTrails, [])
   \<and> updateRouteTrails ([seen ''7'' ''online'' 10 76] @ seen ''7'' ''online'' 0 76
                          # [seen ''7'' ''online'' 11 76]) emptyTrails =
       updateRouteTrails ([seen ''7'' ''online'' 10 76] @ [seen ''7'' ''online'' 11 76]) emptyTrails"
  using trail_zero_coordinate_skipped [of "seen ''7'' ''online'' 0 76" emptyTrails
      "[seen ''7'' ''online'' 10 76]" "[seen ''7'' ''online'' 11 76]" emptyTrails]
  by (simp add: seen_def)

end
